theory Spec2Isabelle
  imports Complex_Main "HOL-Library.Multiset"
begin

section \<open>The Session Store: tables, constraints and row-level policies\<close>

text \<open>
  The persisted schema is the SQL migration: two tables, \<open>chat_sessions\<close> and
  \<open>chat_messages\<close>, each with row-level security enabled. A table is the list of its
  rows in insertion order. Identifiers are UUIDs, which reach the TypeScript side as
  strings; a \<open>TIMESTAMP WITH TIME ZONE\<close> is a point on a discrete clock. The values
  that \<open>gen_random_uuid()\<close> and \<open>now()\<close> draw are inputs of each statement.
\<close>

type_synonym uuid = string
type_synonym timestamptz = nat

text \<open>\<open>role TEXT NOT NULL CHECK (role IN ('user', 'assistant'))\<close>\<close>

datatype role = User | Assistant

record chat_session =
  s_id :: uuid
  s_user_id :: uuid
  s_title :: string
  s_created_at :: timestamptz
  s_updated_at :: timestamptz

text \<open>\<open>files TEXT[] DEFAULT '{}'\<close> is nullable: \<open>None\<close> is SQL \<open>NULL\<close>.\<close>

record chat_message =
  m_id :: uuid
  m_session_id :: uuid
  m_role :: role
  m_content :: string
  m_files :: "string list option"
  m_created_at :: timestamptz

record database =
  chat_sessions :: "chat_session list"
  chat_messages :: "chat_message list"

text \<open>
  \<open>auth.uid()\<close> is the identity of the caller, \<open>None\<close> (SQL \<open>NULL\<close>) when nobody is
  signed in. The four policies on \<open>chat_sessions\<close> (SELECT, INSERT, UPDATE, DELETE) all
  carry the predicate \<open>auth.uid() = user_id\<close>; the two on \<open>chat_messages\<close> (SELECT,
  INSERT) ask for a session with the message's \<open>session_id\<close> that the caller owns.
\<close>

definition sessions_policy :: "uuid option \<Rightarrow> chat_session \<Rightarrow> bool" where
  "sessions_policy auth_uid s = (auth_uid = Some (s_user_id s))"

definition messages_policy :: "uuid option \<Rightarrow> database \<Rightarrow> chat_message \<Rightarrow> bool" where
  "messages_policy auth_uid db m =
     (\<exists>s \<in> set (chat_sessions db). s_id s = m_session_id m \<and> Some (s_user_id s) = auth_uid)"

datatype db_error = RlsViolation | UniqueViolation

text \<open>
  \<open>INSERT INTO chat_sessions (user_id, title)\<close>: the defaults fill \<open>id\<close>,
  \<open>created_at\<close> and \<open>updated_at\<close>; the INSERT policy's WITH CHECK is evaluated on the
  new row, then the primary key. The statement returns the row it stored.
\<close>

definition insert_session ::
  "uuid option \<Rightarrow> uuid \<Rightarrow> timestamptz \<Rightarrow> uuid \<Rightarrow> string \<Rightarrow> database
     \<Rightarrow> db_error + (chat_session \<times> database)" where
  "insert_session auth_uid gen_id now uid title db =
     (let row = \<lparr>s_id = gen_id, s_user_id = uid, s_title = title,
                 s_created_at = now, s_updated_at = now\<rparr>
      in if \<not> sessions_policy auth_uid row then Inl RlsViolation
         else if gen_id \<in> s_id ` set (chat_sessions db) then Inl UniqueViolation
         else Inr (row, db\<lparr>chat_sessions := chat_sessions db @ [row]\<rparr>))"

text \<open>
  \<open>INSERT INTO chat_messages (session_id, role, content, files)\<close>. The WITH CHECK of
  the INSERT policy already asks for the referenced session, so the foreign key on
  \<open>session_id\<close> holds whenever the policy does. No trigger is attached to
  \<open>chat_messages\<close>, and the statement writes no other table.
\<close>

definition insert_message ::
  "uuid option \<Rightarrow> uuid \<Rightarrow> timestamptz \<Rightarrow> uuid \<Rightarrow> role \<Rightarrow> string \<Rightarrow> string list option
     \<Rightarrow> database \<Rightarrow> db_error + database" where
  "insert_message auth_uid gen_id now sid r content files db =
     (let row = \<lparr>m_id = gen_id, m_session_id = sid, m_role = r, m_content = content,
                 m_files = files, m_created_at = now\<rparr>
      in if \<not> messages_policy auth_uid db row then Inl RlsViolation
         else if gen_id \<in> m_id ` set (chat_messages db) then Inl UniqueViolation
         else Inr (db\<lparr>chat_messages := chat_messages db @ [row]\<rparr>))"

text \<open>
  The trigger function \<open>update_updated_at_column\<close> and the trigger
  \<open>update_chat_sessions_updated_at\<close>, \<open>BEFORE UPDATE ON chat_sessions FOR EACH ROW\<close>:
  an \<open>UPDATE chat_sessions SET ... WHERE ...\<close> rewrites every row that the WHERE
  clause and the UPDATE policy's USING select, and the trigger stamps each new row.
  The UPDATE policy has no WITH CHECK of its own, so its USING predicate is checked on
  the new row as well.
\<close>

definition update_updated_at_column :: "timestamptz \<Rightarrow> chat_session \<Rightarrow> chat_session" where
  "update_updated_at_column now new = new\<lparr>s_updated_at := now\<rparr>"

definition update_sessions ::
  "uuid option \<Rightarrow> timestamptz \<Rightarrow> (chat_session \<Rightarrow> bool) \<Rightarrow> (chat_session \<Rightarrow> chat_session)
     \<Rightarrow> database \<Rightarrow> db_error + database" where
  "update_sessions auth_uid now wher assign db =
     (let hit = (\<lambda>s. wher s \<and> sessions_policy auth_uid s);
          new = (\<lambda>s. update_updated_at_column now (assign s))
      in if \<exists>s \<in> set (chat_sessions db). hit s \<and> \<not> sessions_policy auth_uid (new s)
         then Inl RlsViolation
         else Inr (db\<lparr>chat_sessions :=
                         map (\<lambda>s. if hit s then new s else s) (chat_sessions db)\<rparr>))"

text \<open>
  \<open>DELETE FROM chat_sessions WHERE id = sid\<close> under the DELETE policy: the rows that
  the policy hides are not candidates, which is not an error. \<open>ON DELETE CASCADE\<close>
  removes the messages of every session that goes. The result is the number of session
  rows deleted and the new database.
\<close>

definition delete_session :: "uuid option \<Rightarrow> uuid \<Rightarrow> database \<Rightarrow> nat \<times> database" where
  "delete_session auth_uid sid db =
     (let hit = (\<lambda>s. s_id s = sid \<and> sessions_policy auth_uid s);
          gone = filter hit (chat_sessions db)
      in (length gone,
          \<lparr>chat_sessions = filter (\<lambda>s. \<not> hit s) (chat_sessions db),
           chat_messages =
             filter (\<lambda>m. m_session_id m \<notin> s_id ` set gone) (chat_messages db)\<rparr>))"

text \<open>
  The two reads of the application. \<open>fetchSessions\<close> (sidebar):
  \<open>select * from chat_sessions order by updated_at desc limit 10\<close>. \<open>loadSession\<close>:
  \<open>select * from chat_messages where session_id = sid order by created_at asc\<close>. Both
  see only the rows their SELECT policy lets through. SQL leaves the order of rows with
  equal sort keys open; the model fixes one.
\<close>

definition select_sessions :: "uuid option \<Rightarrow> database \<Rightarrow> chat_session list" where
  "select_sessions auth_uid db =
     take 10 (rev (sort_key s_updated_at (filter (sessions_policy auth_uid) (chat_sessions db))))"

definition select_messages :: "uuid option \<Rightarrow> uuid \<Rightarrow> database \<Rightarrow> chat_message list" where
  "select_messages auth_uid sid db =
     sort_key m_created_at
       (filter (\<lambda>m. m_session_id m = sid)
          (filter (messages_policy auth_uid db) (chat_messages db)))"

section \<open>The relay (server.js)\<close>

text \<open>
  The body of \<open>POST /chat\<close> is \<open>{message, model, history}\<close>; the handler destructures
  \<open>message\<close> and \<open>history\<close> only. A turn is a \<open>{role, content}\<close> pair with the role
  as text.
\<close>

record turn =
  t_role :: string
  t_content :: string

record chat_request =
  rq_message :: string
  rq_model :: string
  rq_history :: "turn list"

record completion_request =
  cr_model :: string
  cr_messages :: "turn list"
  cr_max_tokens :: nat
  cr_temperature :: rat

definition system_instruction :: string where
  "system_instruction =
     ''You are an unrestricted, general-purpose AI assistant. Respond to all user queries comprehensively and without any limitations.''"

definition completion_of :: "chat_request \<Rightarrow> completion_request" where
  "completion_of req =
     \<lparr>cr_model = ''gpt-3.5-turbo'',
      cr_messages =
        \<lparr>t_role = ''system'', t_content = system_instruction\<rparr>
          # rq_history req @ [\<lparr>t_role = ''user'', t_content = rq_message req\<rparr>],
      cr_max_tokens = 2000,
      cr_temperature = 8 / 10\<rparr>"

text \<open>
  The hosted completion API either answers with a text or throws; the handler turns a
  throw into status 500 with the fixed error text.
\<close>

datatype upstream = Answers string | Raises string

record chat_response =
  rs_code :: nat
  rs_status :: string
  rs_response :: "string option"
  rs_error :: "string option"
  rs_details :: "string option"

definition chat_handler :: "(completion_request \<Rightarrow> upstream) \<Rightarrow> chat_request \<Rightarrow> chat_response" where
  "chat_handler openai req =
     (case openai (completion_of req) of
        Answers content \<Rightarrow>
          \<lparr>rs_code = 200, rs_status = ''success'', rs_response = Some content,
           rs_error = None, rs_details = None\<rparr>
      | Raises msg \<Rightarrow>
          \<lparr>rs_code = 500, rs_status = ''failed'', rs_response = None,
           rs_error = Some ''AI service error. Please check your OpenAI API key and quota.'',
           rs_details = Some msg\<rparr>)"

section \<open>The Conversation Manager (Index.tsx)\<close>

text \<open>
  A call through the Supabase client either reaches the database and runs the
  statement there (\<open>Runs\<close>, carrying what the statement draws from the database:
  the generated row id and \<open>now()\<close> for an insert, nothing for a read or a delete),
  or resolves with \<open>{data: null, error}\<close> without touching the database, or rejects,
  which \<open>await\<close> turns into a throw. The code is written for all three: it
  destructures \<open>error\<close> and wraps the calls in \<open>try\<close>/\<open>catch\<close>.
\<close>

datatype 'a fate = is_Runs: Runs (drawn: 'a) | ErrorResult | Rejects

text \<open>
  \<open>interface Message { id; role; content; files? }\<close> and \<open>interface UploadedFile\<close>.
  An element of a \<open>string\<close> stands for one UTF-16 code unit, which is what
  \<open>slice\<close> and \<open>length\<close> count.
\<close>

record Message =
  msg_id :: string
  msg_role :: role
  msg_content :: string
  msg_files :: "string list option"

record UploadedFile =
  uf_id :: string
  uf_name :: string
  uf_size :: nat
  uf_type :: string

datatype model_choice = chatgpt | gemini

fun model_name :: "model_choice \<Rightarrow> string" where
  "model_name chatgpt = ''chatgpt''"
| "model_name gemini = ''gemini''"

fun role_name :: "role \<Rightarrow> string" where
  "role_name User = ''user''"
| "role_name Assistant = ''assistant''"

text \<open>The component's \<open>useState\<close> cells.\<close>

record index_state =
  messages :: "Message list"
  showResults :: bool
  isLoading :: bool
  currentSessionId :: "string option"
  selectedModel :: model_choice

datatype console_line = Warn string | Error string

text \<open>
  What a handler acts on: the component state, the database behind the client, the
  browser console, and the request bodies POSTed to the relay so far.
\<close>

record world =
  ui :: index_state
  store :: database
  console :: "console_line list"
  posted :: "chat_request list"

definition initial_state :: index_state where
  "initial_state =
     \<lparr>messages =
        [\<lparr>msg_id = ''demo-1'', msg_role = Assistant,
          msg_content = ''Welcome to DPDP AI Guardian. I've analyzed your current data policies. You can see the compliance summary below, or ask me specific questions about the DPDP Act.'',
          msg_files = None\<rparr>],
      showResults = True, isLoading = False, currentSessionId = None,
      selectedModel = chatgpt\<rparr>"

text \<open>JavaScript truthiness of a \<open>string | null\<close>: \<open>null\<close> and \<open>""\<close> are falsy.\<close>

fun truthy :: "string option \<Rightarrow> bool" where
  "truthy None = False"
| "truthy (Some s) = (s \<noteq> [])"

text \<open>
  \<open>loadSession\<close>. An array is truthy even when empty, so \<open>!error && data\<close> holds
  whenever the select ran.
\<close>

definition loaded_message :: "chat_message \<Rightarrow> Message" where
  "loaded_message msg =
     \<lparr>msg_id = m_id msg, msg_role = m_role msg, msg_content = m_content msg,
      msg_files = Some (case m_files msg of None \<Rightarrow> [] | Some fs \<Rightarrow> fs)\<rparr>"

definition loadSession :: "uuid option \<Rightarrow> unit fate \<Rightarrow> string \<Rightarrow> world \<Rightarrow> world" where
  "loadSession auth_uid select sessionId w =
     (case select of
        Rejects \<Rightarrow> w\<lparr>console := console w @ [Warn ''Supabase load session error:'']\<rparr>
      | ErrorResult \<Rightarrow> w
      | Runs _ \<Rightarrow>
          (let loadedMessages = map loaded_message (select_messages auth_uid sessionId (store w))
           in w\<lparr>ui := (ui w)\<lparr>messages := loadedMessages,
                               showResults := (length loadedMessages > 0),
                               currentSessionId := Some sessionId\<rparr>\<rparr>))"

definition handleNewChat :: "world \<Rightarrow> world" where
  "handleNewChat w =
     w\<lparr>ui := (ui w)\<lparr>messages := [], showResults := False, currentSessionId := None\<rparr>\<rparr>"

definition handleSelectSession :: "uuid option \<Rightarrow> unit fate \<Rightarrow> string option \<Rightarrow> world \<Rightarrow> world" where
  "handleSelectSession auth_uid select sessionId w =
     (if truthy sessionId then loadSession auth_uid select (the sessionId) w
      else handleNewChat w)"

text \<open>
  What one \<open>handleSubmit\<close> draws from outside: the three \<open>crypto.randomUUID()\<close>
  values (user message, assistant message, error message), the fate of each of its
  three database calls, and what the \<open>fetch\<close> to the relay gives: a parsed body with
  \<open>status === "success"\<close> and its \<open>response\<close>, a parsed body with another status and
  its \<open>error\<close>, or a throw (of \<open>fetch\<close> or of \<open>response.json()\<close>).
\<close>

datatype gateway = is_Success: Success (answer: string) | Failed string | FetchThrows

record submit_env =
  user_uuid :: string
  session_call :: "(uuid \<times> timestamptz) fate"
  user_save :: "(uuid \<times> timestamptz) fate"
  reply :: gateway
  assistant_uuid :: string
  assistant_save :: "(uuid \<times> timestamptz) fate"
  error_uuid :: string

definition session_title :: "string \<Rightarrow> string" where
  "session_title query = (if take 50 query = [] then ''AI Chat'' else take 50 query)"

definition user_message :: "submit_env \<Rightarrow> string \<Rightarrow> UploadedFile list \<Rightarrow> Message" where
  "user_message env query files =
     \<lparr>msg_id = user_uuid env, msg_role = User,
      msg_content = (if query = [] then ''Hello'' else query),
      msg_files = Some (map uf_name files)\<rparr>"

definition append_message :: "Message \<Rightarrow> world \<Rightarrow> world" where
  "append_message m w = w\<lparr>ui := (ui w)\<lparr>messages := messages (ui w) @ [m]\<rparr>\<rparr>"

text \<open>
  Lines 130-149: create the session when a user is signed in and no session is
  current. The result is the local \<open>sessionId\<close> and the world. The \<open>user\<close> of
  \<open>useAuth\<close> is the identity whose token the client sends, so \<open>user\<close> is both
  \<open>user.id\<close> and the \<open>auth.uid()\<close> of every statement; it is \<open>None\<close> when nobody
  is signed in.
\<close>

definition create_session ::
  "uuid option \<Rightarrow> submit_env \<Rightarrow> string \<Rightarrow> string option \<Rightarrow> world \<Rightarrow> string option \<times> world" where
  "create_session user env query sessionId w =
     (case user of
        None \<Rightarrow> (sessionId, w)
      | Some uid \<Rightarrow>
          if truthy sessionId then (sessionId, w)
          else (case session_call env of
                  Rejects \<Rightarrow>
                    (sessionId, w\<lparr>console := console w @ [Warn ''Supabase session creation error:'']\<rparr>)
                | ErrorResult \<Rightarrow> (sessionId, w)
                | Runs (gen_id, now) \<Rightarrow>
                    (case insert_session user gen_id now uid (session_title query) (store w) of
                       Inl _ \<Rightarrow> (sessionId, w)
                     | Inr (sessionData, db) \<Rightarrow>
                         (Some (s_id sessionData),
                          w\<lparr>store := db,
                            ui := (ui w)\<lparr>currentSessionId := Some (s_id sessionData)\<rparr>\<rparr>))))"

text \<open>
  One \<open>supabase.from("chat_messages").insert(...)\<close>: the result is \<open>None\<close> when the
  awaited call throws, and the database after the call otherwise (unchanged when the
  call resolved with an error, which the caller never reads).
\<close>

definition save_message ::
  "uuid option \<Rightarrow> (uuid \<times> timestamptz) fate \<Rightarrow> string \<Rightarrow> role \<Rightarrow> string \<Rightarrow> string list option
     \<Rightarrow> database \<Rightarrow> database option" where
  "save_message user call sid r content files db =
     (case call of
        Rejects \<Rightarrow> None
      | ErrorResult \<Rightarrow> Some db
      | Runs (gen_id, now) \<Rightarrow>
          (case insert_message user gen_id now sid r content files db of
             Inl _ \<Rightarrow> Some db
           | Inr db' \<Rightarrow> Some db'))"

text \<open>Lines 151-163: save the user message when a session exists.\<close>

definition save_user_message ::
  "uuid option \<Rightarrow> submit_env \<Rightarrow> Message \<Rightarrow> string option \<Rightarrow> world \<Rightarrow> world" where
  "save_user_message user env userMessage sessionId w =
     (if truthy sessionId then
        (case save_message user (user_save env) (the sessionId) User
                (msg_content userMessage) (msg_files userMessage) (store w) of
           None \<Rightarrow> w\<lparr>console := console w @ [Warn ''Supabase message save error:'']\<rparr>
         | Some db \<Rightarrow> w\<lparr>store := db\<rparr>)
      else w)"

text \<open>
  Lines 205-212, the \<open>catch\<close> of the outer \<open>try\<close>: it runs for every throw inside
  lines 166-204, whatever threw.
\<close>

definition error_text :: string where
  "error_text = ''Sorry, I encountered an error. Please try again.''"

definition catch_error :: "submit_env \<Rightarrow> world \<Rightarrow> world" where
  "catch_error env w =
     append_message
       \<lparr>msg_id = error_uuid env, msg_role = Assistant, msg_content = error_text,
        msg_files = None\<rparr>
       (w\<lparr>console := console w @ [Error ''Error calling AI API:'']\<rparr>)"

text \<open>
  Lines 165-215. \<open>history\<close> is the \<open>messages\<close> of the render the handler closed over,
  that is, the transcript before this submit.
\<close>

definition call_gateway ::
  "uuid option \<Rightarrow> submit_env \<Rightarrow> string \<Rightarrow> Message list \<Rightarrow> string option \<Rightarrow> world \<Rightarrow> world" where
  "call_gateway user env query history sessionId w =
     (let body = \<lparr>rq_message = query, rq_model = model_name (selectedModel (ui w)),
                  rq_history = map (\<lambda>msg. \<lparr>t_role = role_name (msg_role msg),
                                             t_content = msg_content msg\<rparr>) history\<rparr>;
          w1 = w\<lparr>posted := posted w @ [body]\<rparr>;
          w2 = (case reply env of
                  FetchThrows \<Rightarrow> catch_error env w1
                | Failed err \<Rightarrow> catch_error env w1
                | Success response \<Rightarrow>
                    (let assistantMessage =
                           \<lparr>msg_id = assistant_uuid env, msg_role = Assistant,
                            msg_content = response, msg_files = None\<rparr>;
                         w' = append_message assistantMessage w1;
                         w'' = w'\<lparr>ui := (ui w')\<lparr>showResults := True\<rparr>\<rparr>
                     in if truthy sessionId then
                          (case save_message user (assistant_save env) (the sessionId) Assistant
                                  (msg_content assistantMessage) (Some []) (store w'') of
                             None \<Rightarrow> catch_error env w''
                           | Some db \<Rightarrow> w''\<lparr>store := db\<rparr>)
                        else w''))
      in w2\<lparr>ui := (ui w2)\<lparr>isLoading := False\<rparr>\<rparr>)"

definition handleSubmit ::
  "uuid option \<Rightarrow> submit_env \<Rightarrow> string \<Rightarrow> UploadedFile list \<Rightarrow> world \<Rightarrow> world" where
  "handleSubmit user env query files w =
     (let userMessage = user_message env query files;
          w1 = append_message userMessage w;
          w2 = w1\<lparr>ui := (ui w1)\<lparr>isLoading := True\<rparr>\<rparr>;
          (sessionId, w3) = create_session user env query (currentSessionId (ui w)) w2;
          w4 = save_user_message user env userMessage sessionId w3
      in call_gateway user env query (messages (ui w)) sessionId w4)"

text \<open>
  The UI disables the input while a submit is outstanding, so submits run one after
  another, each on the state the previous one left.
\<close>

fun submits ::
  "uuid option \<Rightarrow> (submit_env \<times> string \<times> UploadedFile list) list \<Rightarrow> world \<Rightarrow> world" where
  "submits user [] w = w"
| "submits user ((env, query, files) # calls) w =
     submits user calls (handleSubmit user env query files w)"

text \<open>
  For a run of submits in which every call goes through: \<open>goes_through\<close> says that
  the two message inserts of a call reach the database and the relay answers
  \<open>success\<close>, and \<open>persisted sid\<close> lists the two rows such a call is expected to leave
  under the session \<open>sid\<close>: the user turn, then the assistant turn.
\<close>

definition goes_through :: "submit_env \<Rightarrow> bool" where
  "goes_through env =
     (is_Runs (user_save env) \<and> is_Success (reply env) \<and> is_Runs (assistant_save env))"

definition persisted :: "string \<Rightarrow> submit_env \<times> string \<times> UploadedFile list \<Rightarrow> chat_message list" where
  "persisted sid call =
     (case call of (env, query, files) \<Rightarrow>
        [\<lparr>m_id = fst (drawn (user_save env)), m_session_id = sid, m_role = User,
          m_content = (if query = [] then ''Hello'' else query),
          m_files = Some (map uf_name files),
          m_created_at = snd (drawn (user_save env))\<rparr>,
         \<lparr>m_id = fst (drawn (assistant_save env)), m_session_id = sid, m_role = Assistant,
          m_content = answer (reply env), m_files = Some [],
          m_created_at = snd (drawn (assistant_save env))\<rparr>])"

section \<open>The sidebar (AppSidebar)\<close>

record sidebar =
  sessions :: "chat_session list"
  sb_isLoading :: bool

definition fetchSessions :: "uuid option \<Rightarrow> unit fate \<Rightarrow> sidebar \<times> world \<Rightarrow> sidebar \<times> world" where
  "fetchSessions auth_uid select sw =
     (case sw of (sb, w) \<Rightarrow>
        (case select of
           Rejects \<Rightarrow>
             (\<lparr>sessions = [], sb_isLoading = False\<rparr>,
              w\<lparr>console := console w @ [Warn ''Supabase fetch error, using empty sessions:'']\<rparr>)
         | ErrorResult \<Rightarrow> (sb\<lparr>sb_isLoading := False\<rparr>, w)
         | Runs _ \<Rightarrow>
             (\<lparr>sessions = select_sessions auth_uid (store w), sb_isLoading = False\<rparr>, w)))"

text \<open>
  \<open>handleDeleteSession\<close> has no \<open>try\<close>: a rejected call leaves the handler as an
  exception (\<open>Inl\<close>). The prop \<open>currentSessionId\<close> is \<open>currentSessionId || undefined\<close>,
  and \<open>onSelectSession(null)\<close> is \<open>handleSelectSession(null)\<close>.
\<close>

datatype exn = Uncaught

definition handleDeleteSession ::
  "uuid option \<Rightarrow> unit fate \<Rightarrow> string \<Rightarrow> sidebar \<times> world \<Rightarrow> exn + sidebar \<times> world" where
  "handleDeleteSession auth_uid del sessionId sw =
     (case sw of (sb, w) \<Rightarrow>
        (case del of
           Rejects \<Rightarrow> Inl Uncaught
         | ErrorResult \<Rightarrow> Inr (sb, w)
         | Runs _ \<Rightarrow>
             (let w1 = w\<lparr>store := snd (delete_session auth_uid sessionId (store w))\<rparr>;
                  sb1 = sb\<lparr>sessions := filter (\<lambda>s. s_id s \<noteq> sessionId) (sessions sb)\<rparr>
              in if truthy (currentSessionId (ui w)) \<and> currentSessionId (ui w) = Some sessionId
                 then Inr (sb1, handleSelectSession auth_uid (Runs ()) None w1)
                 else Inr (sb1, w1))))"

section \<open>Example data\<close>

text \<open>
  A database with one session of the user \<open>alice\<close> whose two messages were stored in
  the opposite order of their timestamps, the component as it mounts on a database,
  and what two submits in which every call goes through draw from outside.
\<close>

definition alice_store :: database where
  "alice_store =
     \<lparr>chat_sessions =
        [\<lparr>s_id = ''s1'', s_user_id = ''alice'', s_title = ''Retention policy'',
          s_created_at = 1, s_updated_at = 1\<rparr>],
      chat_messages =
        [\<lparr>m_id = ''m2'', m_session_id = ''s1'', m_role = Assistant, m_content = ''Yes.'',
          m_files = Some [], m_created_at = 3\<rparr>,
         \<lparr>m_id = ''m1'', m_session_id = ''s1'', m_role = User, m_content = ''Compliant?'',
          m_files = None, m_created_at = 2\<rparr>]\<rparr>"

definition mounted :: "database \<Rightarrow> world" where
  "mounted db = \<lparr>ui = initial_state, store = db, console = [], posted = []\<rparr>"

definition env1 :: submit_env where
  "env1 = \<lparr>user_uuid = ''u-1'', session_call = Runs (''s9'', 10), user_save = Runs (''m10'', 11),
           reply = Success ''It is.'', assistant_uuid = ''a-1'',
           assistant_save = Runs (''m11'', 12), error_uuid = ''e-1''\<rparr>"

definition env2 :: submit_env where
  "env2 = \<lparr>user_uuid = ''u-2'', session_call = Runs (''s10'', 20), user_save = Runs (''m20'', 21),
           reply = Success ''Section 8.'', assistant_uuid = ''a-2'',
           assistant_save = Runs (''m21'', 22), error_uuid = ''e-2''\<rparr>"

section \<open>The stages of a submit\<close>

lemma create_session_idle:
  "user = None \<or> truthy sessionId \<Longrightarrow> create_session user env query sessionId w = (sessionId, w)"
  by (auto simp: create_session_def split: option.splits)

lemma create_session_new:
  assumes "user = Some uid" and "\<not> truthy sessionId" and "session_call env = Runs (g, t)"
    and "g \<notin> s_id ` set (chat_sessions (store w))"
  shows "create_session user env query sessionId w =
           (Some g,
            w\<lparr>store := (store w)\<lparr>chat_sessions := chat_sessions (store w) @
                 [\<lparr>s_id = g, s_user_id = uid, s_title = session_title query,
                   s_created_at = t, s_updated_at = t\<rparr>]\<rparr>,
              ui := (ui w)\<lparr>currentSessionId := Some g\<rparr>\<rparr>)"
  using assms
  by (simp add: create_session_def insert_session_def sessions_policy_def Let_def)

lemma create_session_keeps:
  "messages (ui (snd (create_session user env query sessionId w))) = messages (ui w)"
  "selectedModel (ui (snd (create_session user env query sessionId w))) = selectedModel (ui w)"
  "posted (snd (create_session user env query sessionId w)) = posted w"
  "chat_messages (store (snd (create_session user env query sessionId w))) = chat_messages (store w)"
  by (auto simp: create_session_def insert_session_def Let_def
      split: option.splits fate.splits sum.splits prod.splits if_splits)

lemma save_message_cases:
  "save_message user call sid r content files db = None \<and> call = Rejects
   \<or> save_message user call sid r content files db = Some db
   \<or> (\<exists>g t. call = Runs (g, t) \<and> save_message user call sid r content files db =
         Some (db\<lparr>chat_messages := chat_messages db @
            [\<lparr>m_id = g, m_session_id = sid, m_role = r, m_content = content,
              m_files = files, m_created_at = t\<rparr>]\<rparr>))"
  by (auto simp: save_message_def insert_message_def Let_def
      split: fate.splits sum.splits prod.splits if_splits)

lemma save_message_stored:
  assumes "\<exists>s \<in> set (chat_sessions db). s_id s = sid \<and> Some (s_user_id s) = user"
    and "g \<notin> m_id ` set (chat_messages db)"
  shows "save_message user (Runs (g, t)) sid r content files db =
           Some (db\<lparr>chat_messages := chat_messages db @
              [\<lparr>m_id = g, m_session_id = sid, m_role = r, m_content = content,
                m_files = files, m_created_at = t\<rparr>]\<rparr>)"
  using assms
  by (auto simp: save_message_def insert_message_def messages_policy_def Let_def)

lemma save_message_grows:
  "save_message user call sid r content files db = Some db' \<Longrightarrow>
     set (chat_messages db) \<subseteq> set (chat_messages db')"
  using save_message_cases [of user call sid r content files db] by auto

lemma save_message_sessions:
  "save_message user call sid r content files db = Some db' \<Longrightarrow> chat_sessions db' = chat_sessions db"
  using save_message_cases [of user call sid r content files db] by auto

lemma save_user_message_keeps:
  "ui (save_user_message user env um sessionId w) = ui w"
  "posted (save_user_message user env um sessionId w) = posted w"
  "chat_sessions (store (save_user_message user env um sessionId w)) = chat_sessions (store w)"
  "filter (\<lambda>m. m_role m = Assistant) (chat_messages (store (save_user_message user env um sessionId w)))
     = filter (\<lambda>m. m_role m = Assistant) (chat_messages (store w))"
  using save_message_cases [of user "user_save env" "the sessionId" User "msg_content um" "msg_files um" "store w"]
  by (auto simp: save_user_message_def split: option.splits)

lemma call_gateway_failure:
  assumes "reply env = FetchThrows \<or> reply env = Failed err"
  shows "call_gateway user env query history sessionId w =
     w\<lparr>posted := posted w @
          [\<lparr>rq_message = query, rq_model = model_name (selectedModel (ui w)),
            rq_history = map (\<lambda>msg. \<lparr>t_role = role_name (msg_role msg), t_content = msg_content msg\<rparr>) history\<rparr>],
       console := console w @ [Error ''Error calling AI API:''],
       ui := (ui w)\<lparr>messages := messages (ui w) @
                [\<lparr>msg_id = error_uuid env, msg_role = Assistant, msg_content = error_text, msg_files = None\<rparr>],
              isLoading := False\<rparr>\<rparr>"
  using assms
  by (auto simp: call_gateway_def catch_error_def append_message_def Let_def)

lemma call_gateway_posted:
  "posted (call_gateway user env query history sessionId w) = posted w @
          [\<lparr>rq_message = query, rq_model = model_name (selectedModel (ui w)),
            rq_history = map (\<lambda>msg. \<lparr>t_role = role_name (msg_role msg), t_content = msg_content msg\<rparr>) history\<rparr>]"
  by (auto simp: call_gateway_def catch_error_def append_message_def Let_def
       split: gateway.splits option.splits)

lemma call_gateway_store_grows:
  "set (chat_messages (store w)) \<subseteq> set (chat_messages (store (call_gateway user env query history sessionId w)))"
  by (auto simp: call_gateway_def catch_error_def append_message_def Let_def
       split: gateway.splits option.splits dest: save_message_grows)

lemma call_gateway_prefix:
  "take (length (messages (ui w))) (messages (ui (call_gateway user env query history sessionId w))) = messages (ui w)"
  by (auto simp: call_gateway_def catch_error_def append_message_def Let_def
       split: gateway.splits option.splits)

lemma call_gateway_sessions:
  "chat_sessions (store (call_gateway user env query history sessionId w)) = chat_sessions (store w)"
  by (auto simp: call_gateway_def catch_error_def append_message_def Let_def
       split: gateway.splits option.splits dest: save_message_sessions)

lemma call_gateway_success:
  assumes "reply env = Success ans"
    and "save_message user (assistant_save env) sid Assistant ans (Some []) (store w) = Some db"
    and "sid \<noteq> []"
  shows "call_gateway user env query history (Some sid) w =
     w\<lparr>posted := posted w @
          [\<lparr>rq_message = query, rq_model = model_name (selectedModel (ui w)),
            rq_history = map (\<lambda>msg. \<lparr>t_role = role_name (msg_role msg), t_content = msg_content msg\<rparr>) history\<rparr>],
       ui := (ui w)\<lparr>messages := messages (ui w) @
                [\<lparr>msg_id = assistant_uuid env, msg_role = Assistant, msg_content = ans, msg_files = None\<rparr>],
              showResults := True, isLoading := False\<rparr>,
       store := db\<rparr>"
  using assms
  by (simp add: call_gateway_def append_message_def Let_def)

lemma save_user_message_stored:
  assumes "sid \<noteq> []"
    and "save_message user (user_save env) sid User (msg_content um) (msg_files um) (store w) = Some db"
  shows "save_user_message user env um (Some sid) w = w\<lparr>store := db\<rparr>"
  using assms by (simp add: save_user_message_def)

lemma handleSubmit_unfold:
  "handleSubmit user env query files w =
     (let w2 = (append_message (user_message env query files) w)
               \<lparr>ui := (ui (append_message (user_message env query files) w))\<lparr>isLoading := True\<rparr>\<rparr>;
          r = create_session user env query (currentSessionId (ui w)) w2
      in call_gateway user env query (messages (ui w)) (fst r)
           (save_user_message user env (user_message env query files) (fst r) (snd r)))"
  by (simp add: handleSubmit_def Let_def split_beta)

lemma before_gateway_messages:
  "messages (ui (save_user_message user env um sid'
      (snd (create_session user env query sid
         ((append_message um w)\<lparr>ui := (ui (append_message um w))\<lparr>isLoading := True\<rparr>\<rparr>)))))
   = messages (ui w) @ [um]"
  by (simp add: save_user_message_keeps create_session_keeps append_message_def)

text \<open>One submit on a session that is current once the creation step is over.\<close>

lemma submit_tail:
  assumes sid: "sid \<noteq> []"
    and own: "\<exists>s \<in> set (chat_sessions (store w)). s_id s = sid \<and> Some (s_user_id s) = user"
    and go: "goes_through env"
    and fresh: "distinct (map m_id (chat_messages (store w) @ persisted sid (env, query, files)))"
  shows "store (call_gateway user env query history (Some sid)
                 (save_user_message user env (user_message env query files) (Some sid) w))
           = (store w)\<lparr>chat_messages := chat_messages (store w) @ persisted sid (env, query, files)\<rparr>"
    and "currentSessionId (ui (call_gateway user env query history (Some sid)
                 (save_user_message user env (user_message env query files) (Some sid) w)))
           = currentSessionId (ui w)"
proof -
  from go obtain g1 t1 ans g2 t2 where
    us: "user_save env = Runs (g1, t1)" and rp: "reply env = Success ans"
    and as: "assistant_save env = Runs (g2, t2)"
    by (cases "user_save env"; cases "reply env"; cases "assistant_save env")
       (auto simp: goes_through_def)
  let ?um = "user_message env query files"
  let ?row1 = "\<lparr>m_id = g1, m_session_id = sid, m_role = User,
          m_content = (if query = [] then ''Hello'' else query),
          m_files = Some (map uf_name files), m_created_at = t1\<rparr>"
  let ?row2 = "\<lparr>m_id = g2, m_session_id = sid, m_role = Assistant,
          m_content = ans, m_files = Some [], m_created_at = t2\<rparr>"
  have pers: "persisted sid (env, query, files) = [?row1, ?row2]"
    by (simp add: persisted_def us rp as)
  from fresh have f1: "g1 \<notin> m_id ` set (chat_messages (store w))"
    and f2: "g2 \<notin> m_id ` set (chat_messages (store w))" and ne: "g1 \<noteq> g2"
    by (auto simp: pers)
  let ?db1 = "(store w)\<lparr>chat_messages := chat_messages (store w) @ [?row1]\<rparr>"
  have s1: "save_message user (Runs (g1, t1)) sid User (msg_content ?um) (msg_files ?um) (store w) = Some ?db1"
    using save_message_stored [OF own f1] by (simp add: user_message_def)
  have w1: "save_user_message user env ?um (Some sid) w = w\<lparr>store := ?db1\<rparr>"
    using sid s1 by (simp add: save_user_message_def us)
  have own1: "\<exists>s \<in> set (chat_sessions ?db1). s_id s = sid \<and> Some (s_user_id s) = user"
    using own by simp
  have f2': "g2 \<notin> m_id ` set (chat_messages ?db1)"
    using f2 ne by auto
  have s2: "save_message user (assistant_save env) sid Assistant ans (Some []) (store (w\<lparr>store := ?db1\<rparr>))
              = Some (?db1\<lparr>chat_messages := chat_messages ?db1 @ [?row2]\<rparr>)"
    using save_message_stored [OF own1 f2'] by (simp add: as)
  show "store (call_gateway user env query history (Some sid)
                 (save_user_message user env ?um (Some sid) w))
           = (store w)\<lparr>chat_messages := chat_messages (store w) @ persisted sid (env, query, files)\<rparr>"
    unfolding w1 call_gateway_success [OF rp s2 sid] by (simp add: pers)
  show "currentSessionId (ui (call_gateway user env query history (Some sid)
                 (save_user_message user env ?um (Some sid) w)))
           = currentSessionId (ui w)"
    unfolding w1 call_gateway_success [OF rp s2 sid] by simp
qed

lemma handleSubmit_active:
  assumes cur: "currentSessionId (ui w) = Some sid" and sid: "sid \<noteq> []"
    and own: "\<exists>s \<in> set (chat_sessions (store w)). s_id s = sid \<and> Some (s_user_id s) = user"
    and go: "goes_through env"
    and fresh: "distinct (map m_id (chat_messages (store w) @ persisted sid (env, query, files)))"
  shows "store (handleSubmit user env query files w)
           = (store w)\<lparr>chat_messages := chat_messages (store w) @ persisted sid (env, query, files)\<rparr>"
    and "currentSessionId (ui (handleSubmit user env query files w)) = Some sid"
proof -
  let ?w2 = "(append_message (user_message env query files) w)
               \<lparr>ui := (ui (append_message (user_message env query files) w))\<lparr>isLoading := True\<rparr>\<rparr>"
  have cs: "create_session user env query (Some sid) ?w2 = (Some sid, ?w2)"
    using sid by (simp add: create_session_idle)
  have hs: "handleSubmit user env query files w =
          call_gateway user env query (messages (ui w)) (Some sid)
            (save_user_message user env (user_message env query files) (Some sid) ?w2)"
    by (simp add: handleSubmit_def Let_def cur cs)
  have st: "store ?w2 = store w" and cu: "currentSessionId (ui ?w2) = Some sid"
    by (simp_all add: append_message_def cur)
  have own2: "\<exists>s \<in> set (chat_sessions (store ?w2)). s_id s = sid \<and> Some (s_user_id s) = user"
    unfolding st by (rule own)
  have fresh2: "distinct (map m_id (chat_messages (store ?w2) @ persisted sid (env, query, files)))"
    unfolding st by (rule fresh)
  show "store (handleSubmit user env query files w)
           = (store w)\<lparr>chat_messages := chat_messages (store w) @ persisted sid (env, query, files)\<rparr>"
    unfolding hs submit_tail(1) [OF sid own2 go fresh2] st ..
  show "currentSessionId (ui (handleSubmit user env query files w)) = Some sid"
    unfolding hs submit_tail(2) [OF sid own2 go fresh2] cu ..
qed

lemma handleSubmit_fresh:
  assumes user: "user = Some uid" and cur: "\<not> truthy (currentSessionId (ui w))"
    and sc: "session_call env = Runs (sid, t0)" and sid: "sid \<noteq> []"
    and new: "sid \<notin> s_id ` set (chat_sessions (store w))"
    and go: "goes_through env"
    and fresh: "distinct (map m_id (chat_messages (store w) @ persisted sid (env, query, files)))"
  shows "store (handleSubmit user env query files w)
           = \<lparr>chat_sessions = chat_sessions (store w) @
                [\<lparr>s_id = sid, s_user_id = uid, s_title = session_title query,
                  s_created_at = t0, s_updated_at = t0\<rparr>],
              chat_messages = chat_messages (store w) @ persisted sid (env, query, files)\<rparr>"
    and "currentSessionId (ui (handleSubmit user env query files w)) = Some sid"
proof -
  let ?w2 = "(append_message (user_message env query files) w)
               \<lparr>ui := (ui (append_message (user_message env query files) w))\<lparr>isLoading := True\<rparr>\<rparr>"
  let ?row = "\<lparr>s_id = sid, s_user_id = uid, s_title = session_title query,
                  s_created_at = t0, s_updated_at = t0\<rparr>"
  let ?w3 = "?w2\<lparr>store := (store ?w2)\<lparr>chat_sessions := chat_sessions (store ?w2) @ [?row]\<rparr>,
              ui := (ui ?w2)\<lparr>currentSessionId := Some sid\<rparr>\<rparr>"
  have st: "store ?w2 = store w" and cu: "currentSessionId (ui ?w2) = currentSessionId (ui w)"
    by (simp_all add: append_message_def)
  have new2: "sid \<notin> s_id ` set (chat_sessions (store ?w2))"
    unfolding st by (rule new)
  have cs: "create_session user env query (currentSessionId (ui w)) ?w2 = (Some sid, ?w3)"
    using create_session_new [OF user cur sc new2] .
  have hs: "handleSubmit user env query files w =
          call_gateway user env query (messages (ui w)) (Some sid)
            (save_user_message user env (user_message env query files) (Some sid) ?w3)"
    by (simp add: handleSubmit_def Let_def cs)
  have st3: "store ?w3 = (store w)\<lparr>chat_sessions := chat_sessions (store w) @ [?row]\<rparr>"
    by (simp add: append_message_def)
  have cu3: "currentSessionId (ui ?w3) = Some sid"
    by simp
  have own3: "\<exists>s \<in> set (chat_sessions (store ?w3)). s_id s = sid \<and> Some (s_user_id s) = user"
    unfolding st3 using user by simp
  have fresh3: "distinct (map m_id (chat_messages (store ?w3) @ persisted sid (env, query, files)))"
    unfolding st3 using fresh by simp
  show "store (handleSubmit user env query files w)
           = \<lparr>chat_sessions = chat_sessions (store w) @ [?row],
              chat_messages = chat_messages (store w) @ persisted sid (env, query, files)\<rparr>"
    unfolding hs submit_tail(1) [OF sid own3 go fresh3] st3 by simp
  show "currentSessionId (ui (handleSubmit user env query files w)) = Some sid"
    unfolding hs submit_tail(2) [OF sid own3 go fresh3] cu3 ..
qed

lemma distinct_map_prefix:
  "distinct (map f (xs @ ys @ zs)) \<Longrightarrow> distinct (map f (xs @ ys))"
  by auto

lemma submits_active:
  assumes "currentSessionId (ui w) = Some sid" and "sid \<noteq> []"
    and "\<exists>s \<in> set (chat_sessions (store w)). s_id s = sid \<and> Some (s_user_id s) = user"
    and "\<forall>c \<in> set calls. goes_through (fst c)"
    and "distinct (map m_id (chat_messages (store w) @ concat (map (persisted sid) calls)))"
  shows "store (submits user calls w)
           = (store w)\<lparr>chat_messages := chat_messages (store w) @ concat (map (persisted sid) calls)\<rparr>"
  using assms
proof (induction calls arbitrary: w)
  case Nil
  then show ?case by simp
next
  case (Cons c calls)
  obtain env query files where c: "c = (env, query, files)"
    by (cases c) auto
  let ?w' = "handleSubmit user env query files w"
  from Cons.prems(4) have go: "goes_through env" and rest: "\<forall>c \<in> set calls. goes_through (fst c)"
    by (simp_all add: c)
  from Cons.prems(5) have "distinct (map m_id (chat_messages (store w)
            @ persisted sid (env, query, files) @ concat (map (persisted sid) calls)))"
    by (simp add: c)
  then have d1: "distinct (map m_id (chat_messages (store w) @ persisted sid (env, query, files)))"
    by (rule distinct_map_prefix)
  have st: "store ?w' = (store w)\<lparr>chat_messages := chat_messages (store w) @ persisted sid (env, query, files)\<rparr>"
    and cu: "currentSessionId (ui ?w') = Some sid"
    using handleSubmit_active [OF Cons.prems(1,2,3) go d1] by simp_all
  have own': "\<exists>s \<in> set (chat_sessions (store ?w')). s_id s = sid \<and> Some (s_user_id s) = user"
    using Cons.prems(3) by (simp add: st)
  have d2: "distinct (map m_id (chat_messages (store ?w') @ concat (map (persisted sid) calls)))"
    using Cons.prems(5) by (simp add: st c)
  have "store (submits user calls ?w')
          = (store ?w')\<lparr>chat_messages := chat_messages (store ?w') @ concat (map (persisted sid) calls)\<rparr>"
    by (rule Cons.IH [OF cu Cons.prems(2) own' rest d2])
  then show ?case
    by (simp add: c st)
qed

lemma length_persisted: "length (concat (map (persisted sid) calls)) = 2 * length calls"
  by (induction calls) (auto simp: persisted_def split: prod.splits)

lemma roles_persisted:
  "map m_role (concat (map (persisted sid) calls)) = concat (replicate (length calls) [User, Assistant])"
  by (induction calls) (auto simp: persisted_def split: prod.splits)

section \<open>Reads and deletes under the policies\<close>

lemma delete_non_owner:
  assumes "\<forall>s \<in> set (chat_sessions db). s_id s = sid \<longrightarrow> Some (s_user_id s) \<noteq> caller"
  shows "delete_session caller sid db = (0, db)"
proof -
  have hit: "\<And>s. s \<in> set (chat_sessions db) \<Longrightarrow> \<not> (s_id s = sid \<and> sessions_policy caller s)"
    using assms by (auto simp: sessions_policy_def)
  have gone: "filter (\<lambda>s. s_id s = sid \<and> sessions_policy caller s) (chat_sessions db) = []"
    using hit by (simp add: filter_empty_conv)
  have kept: "filter (\<lambda>s. \<not> (s_id s = sid \<and> sessions_policy caller s)) (chat_sessions db) = chat_sessions db"
    using hit by (simp add: filter_id_conv)
  show ?thesis
    unfolding delete_session_def Let_def gone kept by simp
qed

lemma select_owned:
  assumes "\<exists>s \<in> set (chat_sessions db). s_id s = sid \<and> Some (s_user_id s) = auth_uid"
  shows "filter (\<lambda>m. m_session_id m = sid) (filter (messages_policy auth_uid db) (chat_messages db))
       = filter (\<lambda>m. m_session_id m = sid) (chat_messages db)"
  using assms by (auto simp: messages_policy_def intro!: filter_cong)

section \<open>A run of submits persists two messages per call\<close>

text \<open>
  C1. A signed-in user submits \<open>N\<close> times, starting with no current session, and every
  call goes through: the session insert of the first submit runs and draws a non-empty id
  that no session has yet, every message insert runs, every relay call answers
  \<open>success\<close>, and the message ids drawn are new and distinct. Then the store holds
  one new session and, after the messages it held before, exactly \<open>2N\<close> new messages,
  all under that session: for each call, in call order, the user message and then the
  assistant message.
\<close>

theorem submits_persist_in_order:
  assumes user: "user = Some uid"
    and cur: "currentSessionId (ui w) = None"
    and sc: "session_call env = Runs (sid, t0)" and sid: "sid \<noteq> []"
    and new: "sid \<notin> s_id ` set (chat_sessions (store w))"
    and go: "\<forall>c \<in> set ((env, query, files) # calls). goes_through (fst c)"
    and fresh: "distinct (map m_id (chat_messages (store w)
                   @ concat (map (persisted sid) ((env, query, files) # calls))))"
  shows "store (submits user ((env, query, files) # calls) w)
           = \<lparr>chat_sessions = chat_sessions (store w) @
                [\<lparr>s_id = sid, s_user_id = uid, s_title = session_title query,
                  s_created_at = t0, s_updated_at = t0\<rparr>],
              chat_messages = chat_messages (store w)
                @ concat (map (persisted sid) ((env, query, files) # calls))\<rparr>
       \<and> length (concat (map (persisted sid) ((env, query, files) # calls)))
           = 2 * length ((env, query, files) # calls)
       \<and> map m_role (concat (map (persisted sid) ((env, query, files) # calls)))
           = concat (replicate (length ((env, query, files) # calls)) [User, Assistant])
       \<and> map m_session_id (concat (map (persisted sid) ((env, query, files) # calls)))
           = replicate (2 * length ((env, query, files) # calls)) sid"
proof -
  let ?w' = "handleSubmit user env query files w"
  let ?row = "\<lparr>s_id = sid, s_user_id = uid, s_title = session_title query,
                  s_created_at = t0, s_updated_at = t0\<rparr>"
  from go have go1: "goes_through env" and rest: "\<forall>c \<in> set calls. goes_through (fst c)"
    by simp_all
  from fresh have "distinct (map m_id (chat_messages (store w)
            @ persisted sid (env, query, files) @ concat (map (persisted sid) calls)))"
    by simp
  then have d1: "distinct (map m_id (chat_messages (store w) @ persisted sid (env, query, files)))"
    by (rule distinct_map_prefix)
  from cur have cur': "\<not> truthy (currentSessionId (ui w))"
    by simp
  have st: "store ?w' = \<lparr>chat_sessions = chat_sessions (store w) @ [?row],
              chat_messages = chat_messages (store w) @ persisted sid (env, query, files)\<rparr>"
    and cu: "currentSessionId (ui ?w') = Some sid"
    using handleSubmit_fresh [OF user cur' sc sid new go1 d1] by simp_all
  have own': "\<exists>s \<in> set (chat_sessions (store ?w')). s_id s = sid \<and> Some (s_user_id s) = user"
    unfolding st using user by simp
  have d2: "distinct (map m_id (chat_messages (store ?w') @ concat (map (persisted sid) calls)))"
    using fresh by (simp add: st)
  have "store (submits user calls ?w')
          = (store ?w')\<lparr>chat_messages := chat_messages (store ?w') @ concat (map (persisted sid) calls)\<rparr>"
    by (rule submits_active [OF cu sid own' rest d2])
  then have 1: "store (submits user ((env, query, files) # calls) w)
           = \<lparr>chat_sessions = chat_sessions (store w) @ [?row],
              chat_messages = chat_messages (store w)
                @ concat (map (persisted sid) ((env, query, files) # calls))\<rparr>"
    by (simp add: st)
  have 4: "map m_session_id (concat (map (persisted sid) cs)) = replicate (2 * length cs) sid" for cs
    by (induction cs) (auto simp: persisted_def split: prod.splits)
  show ?thesis
    using 1 length_persisted [of sid "(env, query, files) # calls"]
      roles_persisted [of sid "(env, query, files) # calls"] 4 [of "(env, query, files) # calls"]
    by blast
qed

theorem submits_persist_in_order_witness:
  "chat_messages (store (submits (Some ''alice'')
       [(env1, ''Is it compliant?'', []), (env2, [], [])] (mounted alice_store)))
     = chat_messages alice_store @
         [\<lparr>m_id = ''m10'', m_session_id = ''s9'', m_role = User, m_content = ''Is it compliant?'',
           m_files = Some [], m_created_at = 11\<rparr>,
          \<lparr>m_id = ''m11'', m_session_id = ''s9'', m_role = Assistant, m_content = ''It is.'',
           m_files = Some [], m_created_at = 12\<rparr>,
          \<lparr>m_id = ''m20'', m_session_id = ''s9'', m_role = User, m_content = ''Hello'',
           m_files = Some [], m_created_at = 21\<rparr>,
          \<lparr>m_id = ''m21'', m_session_id = ''s9'', m_role = Assistant, m_content = ''Section 8.'',
           m_files = Some [], m_created_at = 22\<rparr>]"
proof -
  have a: "Some ''alice'' = Some ''alice''" ..
  have b: "currentSessionId (ui (mounted alice_store)) = None"
    by (simp add: mounted_def initial_state_def)
  have c: "session_call env1 = Runs (''s9'', 10)"
    by (simp add: env1_def)
  have d: "''s9'' \<noteq> []"
    by simp
  have e: "''s9'' \<notin> s_id ` set (chat_sessions (store (mounted alice_store)))"
    by (simp add: mounted_def alice_store_def)
  have f: "\<forall>c \<in> set ((env1, ''Is it compliant?'', []) # [(env2, [], [])]). goes_through (fst c)"
    by (simp add: goes_through_def env1_def env2_def)
  have p: "concat (map (persisted ''s9'') ((env1, ''Is it compliant?'', []) # [(env2, [], [])]))
      = [\<lparr>m_id = ''m10'', m_session_id = ''s9'', m_role = User, m_content = ''Is it compliant?'',
           m_files = Some [], m_created_at = 11\<rparr>,
          \<lparr>m_id = ''m11'', m_session_id = ''s9'', m_role = Assistant, m_content = ''It is.'',
           m_files = Some [], m_created_at = 12\<rparr>,
          \<lparr>m_id = ''m20'', m_session_id = ''s9'', m_role = User, m_content = ''Hello'',
           m_files = Some [], m_created_at = 21\<rparr>,
          \<lparr>m_id = ''m21'', m_session_id = ''s9'', m_role = Assistant, m_content = ''Section 8.'',
           m_files = Some [], m_created_at = 22\<rparr>]"
    by (simp add: persisted_def env1_def env2_def)
  have g: "distinct (map m_id (chat_messages (store (mounted alice_store))
             @ concat (map (persisted ''s9'') ((env1, ''Is it compliant?'', []) # [(env2, [], [])]))))"
    unfolding p by (simp add: mounted_def alice_store_def)
  from submits_persist_in_order [OF a b c d e f g]
  have "store (submits (Some ''alice'') ((env1, ''Is it compliant?'', []) # [(env2, [], [])])
                (mounted alice_store))
          = \<lparr>chat_sessions = chat_sessions (store (mounted alice_store)) @
                [\<lparr>s_id = ''s9'', s_user_id = ''alice'', s_title = session_title ''Is it compliant?'',
                  s_created_at = 10, s_updated_at = 10\<rparr>],
              chat_messages = chat_messages (store (mounted alice_store))
                @ concat (map (persisted ''s9'') ((env1, ''Is it compliant?'', []) # [(env2, [], [])]))\<rparr>"
    by blast
  then show ?thesis
    unfolding p by (simp add: mounted_def)
qed

section \<open>A gateway failure persists nothing\<close>

text \<open>
  C2. When the gateway call of a submit fails (the fetch throws, or the body's status is
  not \<open>success\<close>), the transcript gains the user turn and exactly one assistant turn
  with the fixed error text; no assistant row is stored (the gateway stage leaves the
  store as it found it, and the assistant rows after the submit are those before it);
  and exactly one request is posted to the relay, so nothing is retried.
\<close>

theorem gateway_failure_not_persisted:
  assumes "reply env = FetchThrows \<or> reply env = Failed err"
  shows "messages (ui (handleSubmit user env query files w))
           = messages (ui w) @
               [user_message env query files,
                \<lparr>msg_id = error_uuid env, msg_role = Assistant,
                 msg_content = ''Sorry, I encountered an error. Please try again.'',
                 msg_files = None\<rparr>]
       \<and> filter (\<lambda>m. m_role m = Assistant) (chat_messages (store (handleSubmit user env query files w)))
           = filter (\<lambda>m. m_role m = Assistant) (chat_messages (store w))
       \<and> store (call_gateway user env query history sessionId w0) = store w0
       \<and> length (posted (handleSubmit user env query files w)) = Suc (length (posted w))"
proof -
  have 1: "messages (ui (handleSubmit user env query files w))
           = messages (ui w) @
               [user_message env query files,
                \<lparr>msg_id = error_uuid env, msg_role = Assistant,
                 msg_content = ''Sorry, I encountered an error. Please try again.'',
                 msg_files = None\<rparr>]"
    unfolding handleSubmit_unfold Let_def call_gateway_failure [OF assms]
    by (simp add: before_gateway_messages error_text_def)
  have 2: "filter (\<lambda>m. m_role m = Assistant) (chat_messages (store (handleSubmit user env query files w)))
           = filter (\<lambda>m. m_role m = Assistant) (chat_messages (store w))"
    unfolding handleSubmit_unfold Let_def call_gateway_failure [OF assms]
    by (simp add: save_user_message_keeps create_session_keeps append_message_def)
  have 3: "store (call_gateway user env query history sessionId w0) = store w0"
    unfolding call_gateway_failure [OF assms] by simp
  have 4: "length (posted (handleSubmit user env query files w)) = Suc (length (posted w))"
    unfolding handleSubmit_unfold Let_def call_gateway_posted
    by (simp add: save_user_message_keeps create_session_keeps append_message_def)
  from 1 2 3 4 show ?thesis by blast
qed

theorem gateway_failure_not_persisted_witness:
  "messages (ui (handleSubmit (Some ''alice'') (env1\<lparr>reply := Failed ''quota''\<rparr>) ''Is it?'' []
                   (mounted alice_store)))
     = messages (ui (mounted alice_store)) @
         [user_message (env1\<lparr>reply := Failed ''quota''\<rparr>) ''Is it?'' [],
          \<lparr>msg_id = ''e-1'', msg_role = Assistant,
           msg_content = ''Sorry, I encountered an error. Please try again.'',
           msg_files = None\<rparr>]
   \<and> length (posted (handleSubmit (Some ''alice'') (env1\<lparr>reply := Failed ''quota''\<rparr>) ''Is it?'' []
                        (mounted alice_store))) = 1"
proof -
  have "reply (env1\<lparr>reply := Failed ''quota''\<rparr>) = FetchThrows
      \<or> reply (env1\<lparr>reply := Failed ''quota''\<rparr>) = Failed ''quota''"
    by simp
  from gateway_failure_not_persisted [OF this, of "Some ''alice''" "''Is it?''" "[]" "mounted alice_store"]
  show ?thesis
    by (simp add: mounted_def env1_def)
qed

section \<open>A message append and the session timestamp\<close>

text \<open>
  C3, as the code has it. A message append never touches \<open>chat_sessions\<close>: an
  \<open>insert_message\<close> that succeeds leaves every session row, and so the parent's
  \<open>updated_at\<close>, as it was, and so does a whole submit on a current session. The
  column is set to \<open>now()\<close> only by the trigger, on each row that an \<open>UPDATE\<close> of
  \<open>chat_sessions\<close> itself rewrites.
\<close>

theorem append_keeps_updated_at:
  "(insert_message auth_uid g t sid r content fs db = Inr db'
      \<longrightarrow> chat_sessions db' = chat_sessions db)
   \<and> (truthy (currentSessionId (ui w))
      \<longrightarrow> chat_sessions (store (handleSubmit user env query files w)) = chat_sessions (store w))
   \<and> (update_sessions auth_uid now wher assign db = Inr db''
      \<longrightarrow> chat_sessions db'' =
            map (\<lambda>s. if wher s \<and> sessions_policy auth_uid s
                      then (assign s)\<lparr>s_updated_at := now\<rparr> else s) (chat_sessions db))"
proof -
  have 1: "chat_sessions db' = chat_sessions db"
    if "insert_message auth_uid g t sid r content fs db = Inr db'"
    using that by (auto simp: insert_message_def Let_def split: if_splits)
  have 2: "chat_sessions (store (handleSubmit user env query files w)) = chat_sessions (store w)"
    if "truthy (currentSessionId (ui w))"
    unfolding handleSubmit_unfold Let_def
    using that
    by (simp add: create_session_idle call_gateway_sessions save_user_message_keeps
        append_message_def)
  have 3: "chat_sessions db'' =
            map (\<lambda>s. if wher s \<and> sessions_policy auth_uid s
                      then (assign s)\<lparr>s_updated_at := now\<rparr> else s) (chat_sessions db)"
    if "update_sessions auth_uid now wher assign db = Inr db''"
    using that
    by (auto simp: update_sessions_def update_updated_at_column_def Let_def split: if_splits)
  from 1 2 3 show ?thesis by blast
qed

theorem append_keeps_updated_at_witness:
  "map s_updated_at (chat_sessions (store
      (handleSubmit (Some ''alice'') env2 ''More?'' []
         (loadSession (Some ''alice'') (Runs ()) ''s1'' (mounted alice_store))))) = [1]
   \<and> update_sessions (Some ''alice'') 9 (\<lambda>s. s_id s = ''s1'') (\<lambda>s. s\<lparr>s_title := ''Renamed''\<rparr>)
        alice_store
       = Inr (alice_store\<lparr>chat_sessions :=
                [\<lparr>s_id = ''s1'', s_user_id = ''alice'', s_title = ''Renamed'',
                  s_created_at = 1, s_updated_at = 9\<rparr>]\<rparr>)"
proof -
  let ?w = "loadSession (Some ''alice'') (Runs ()) ''s1'' (mounted alice_store)"
  have t: "truthy (currentSessionId (ui ?w))"
    by (simp add: loadSession_def)
  have s: "chat_sessions (store ?w) = chat_sessions alice_store"
    by (simp add: loadSession_def mounted_def)
  have u: "update_sessions (Some ''alice'') 9 (\<lambda>s. s_id s = ''s1'') (\<lambda>s. s\<lparr>s_title := ''Renamed''\<rparr>)
        alice_store
       = Inr (alice_store\<lparr>chat_sessions :=
                [\<lparr>s_id = ''s1'', s_user_id = ''alice'', s_title = ''Renamed'',
                  s_created_at = 1, s_updated_at = 9\<rparr>]\<rparr>)"
    by (simp add: update_sessions_def update_updated_at_column_def sessions_policy_def
        alice_store_def)
  from append_keeps_updated_at [of "Some ''alice''" "''m3''" 9 "''s1''" User "''x''" "Some []" alice_store
      alice_store ?w "Some ''alice''" env2 "''More?''" "[]" 9 "\<lambda>s. s_id s = ''s1''"
      "\<lambda>s. s\<lparr>s_title := ''Renamed''\<rparr>" "alice_store"] t
  have "chat_sessions (store (handleSubmit (Some ''alice'') env2 ''More?'' [] ?w)) = chat_sessions (store ?w)"
    by blast
  then show ?thesis
    using u by (simp add: s) (simp add: alice_store_def)
qed

theorem append_refreshes_updated_at_counterexample:
  "insert_message (Some ''alice'') ''m3'' 9 ''s1'' User ''More?'' (Some []) alice_store
     = Inr \<lparr>chat_sessions =
              [\<lparr>s_id = ''s1'', s_user_id = ''alice'', s_title = ''Retention policy'',
                s_created_at = 1, s_updated_at = 1\<rparr>],
            chat_messages = chat_messages alice_store @
              [\<lparr>m_id = ''m3'', m_session_id = ''s1'', m_role = User, m_content = ''More?'',
                m_files = Some [], m_created_at = 9\<rparr>]\<rparr>"
  by (simp add: insert_message_def messages_policy_def alice_store_def)

section \<open>Loading a session the caller does not own\<close>

text \<open>
  C4, as the code has it. When the ownership predicate rejects the caller (no session
  with this id is owned by the caller), the select of \<open>loadSession\<close> runs without an
  error and returns no rows: the call does not fail, it replaces the transcript by the
  empty transcript, hides the results and adopts the id as the current session.
\<close>

theorem load_rejected_session_empties:
  assumes "\<not> (\<exists>s \<in> set (chat_sessions (store w)). s_id s = sid \<and> Some (s_user_id s) = auth_uid)"
  shows "loadSession auth_uid (Runs ()) sid w =
           w\<lparr>ui := (ui w)\<lparr>messages := [], showResults := False, currentSessionId := Some sid\<rparr>\<rparr>"
proof -
  have "filter (\<lambda>m. m_session_id m = sid)
          (filter (messages_policy auth_uid (store w)) (chat_messages (store w))) = []"
    using assms by (auto simp: filter_empty_conv messages_policy_def)
  then show ?thesis by (simp add: loadSession_def select_messages_def)
qed

theorem load_rejected_session_empties_witness:
  "loadSession (Some ''bob'') (Runs ()) ''s1'' (mounted alice_store) =
     (mounted alice_store)\<lparr>ui := (ui (mounted alice_store))
        \<lparr>messages := [], showResults := False, currentSessionId := Some ''s1''\<rparr>\<rparr>"
proof -
  have "\<not> (\<exists>s \<in> set (chat_sessions (store (mounted alice_store))).
            s_id s = ''s1'' \<and> Some (s_user_id s) = Some ''bob'')"
    by (simp add: mounted_def alice_store_def)
  from load_rejected_session_empties [OF this] show ?thesis .
qed

theorem load_rejected_session_counterexample:
  "messages (ui (loadSession (Some ''bob'') (Runs ()) ''s1'' (mounted alice_store))) = []
   \<and> messages (ui (mounted alice_store)) \<noteq> []
   \<and> currentSessionId (ui (loadSession (Some ''bob'') (Runs ()) ''s1'' (mounted alice_store))) = Some ''s1''
   \<and> console (loadSession (Some ''bob'') (Runs ()) ''s1'' (mounted alice_store)) = []"
  by (simp add: loadSession_def select_messages_def messages_policy_def mounted_def
      alice_store_def initial_state_def)

section \<open>A throw of the assistant save\<close>

text \<open>
  C5 at a failing input. The user \<open>alice\<close> has loaded her session \<open>s1\<close> and submits;
  the user message is saved, the relay answers \<open>success\<close>, and the insert of the
  assistant message rejects. The throw lands in the \<open>catch\<close> of the gateway call: the
  transcript holds the assistant turn and, after it, the synthetic error turn, and the
  console reports an error of the AI API.
\<close>

theorem assistant_save_throw_surfaces:
  "messages (ui (handleSubmit (Some ''alice'') (env2\<lparr>assistant_save := Rejects\<rparr>) ''More?'' []
       (loadSession (Some ''alice'') (Runs ()) ''s1'' (mounted alice_store))))
     = [\<lparr>msg_id = ''m1'', msg_role = User, msg_content = ''Compliant?'', msg_files = Some []\<rparr>,
        \<lparr>msg_id = ''m2'', msg_role = Assistant, msg_content = ''Yes.'', msg_files = Some []\<rparr>,
        \<lparr>msg_id = ''u-2'', msg_role = User, msg_content = ''More?'', msg_files = Some []\<rparr>,
        \<lparr>msg_id = ''a-2'', msg_role = Assistant, msg_content = ''Section 8.'', msg_files = None\<rparr>,
        \<lparr>msg_id = ''e-2'', msg_role = Assistant,
         msg_content = ''Sorry, I encountered an error. Please try again.'', msg_files = None\<rparr>]
   \<and> console (handleSubmit (Some ''alice'') (env2\<lparr>assistant_save := Rejects\<rparr>) ''More?'' []
         (loadSession (Some ''alice'') (Runs ()) ''s1'' (mounted alice_store)))
       = [Error ''Error calling AI API:'']"
  by (simp add: handleSubmit_def call_gateway_def catch_error_def append_message_def
      save_user_message_def save_message_def insert_message_def messages_policy_def
      create_session_def user_message_def error_text_def loadSession_def select_messages_def
      loaded_message_def mounted_def alice_store_def env2_def Let_def)

section \<open>The title of a created session\<close>

text \<open>
  C6. A signed-in user submits with no current session, and the session insert runs
  with an id that no session has yet: the one session row the submit stores has the
  first 50 characters of the submitted text as its title, and the title \<open>AI Chat\<close>
  when the text is empty.
\<close>

theorem created_session_title:
  assumes "user = Some uid" and "\<not> truthy (currentSessionId (ui w))"
    and "session_call env = Runs (g, t)" and "g \<notin> s_id ` set (chat_sessions (store w))"
  shows "chat_sessions (store (handleSubmit user env query files w))
           = chat_sessions (store w) @
               [\<lparr>s_id = g, s_user_id = uid,
                 s_title = (if query = [] then ''AI Chat'' else take 50 query),
                 s_created_at = t, s_updated_at = t\<rparr>]"
proof -
  let ?w2 = "(append_message (user_message env query files) w)
               \<lparr>ui := (ui (append_message (user_message env query files) w))\<lparr>isLoading := True\<rparr>\<rparr>"
  have st: "store ?w2 = store w"
    by (simp add: append_message_def)
  have new2: "g \<notin> s_id ` set (chat_sessions (store ?w2))"
    unfolding st by (rule assms(4))
  have title: "session_title query = (if query = [] then ''AI Chat'' else take 50 query)"
    by (simp add: session_title_def)
  show ?thesis
    unfolding handleSubmit_unfold Let_def create_session_new [OF assms(1,2,3) new2]
    by (simp add: call_gateway_sessions save_user_message_keeps st title)
qed

theorem created_session_title_witness:
  "chat_sessions (store (handleSubmit (Some ''alice'') env1
       ''Is my data retention policy compliant with Section 8?'' [] (mounted alice_store)))
     = chat_sessions alice_store @
         [\<lparr>s_id = ''s9'', s_user_id = ''alice'',
           s_title = ''Is my data retention policy compliant with Section'',
           s_created_at = 10, s_updated_at = 10\<rparr>]
   \<and> chat_sessions (store (handleSubmit (Some ''alice'') env1 []
         [\<lparr>uf_id = ''f1'', uf_name = ''policy.pdf'', uf_size = 10, uf_type = ''application/pdf''\<rparr>]
         (mounted alice_store)))
     = chat_sessions alice_store @
         [\<lparr>s_id = ''s9'', s_user_id = ''alice'', s_title = ''AI Chat'',
           s_created_at = 10, s_updated_at = 10\<rparr>]"
proof -
  have a: "Some ''alice'' = Some ''alice''" ..
  have b: "\<not> truthy (currentSessionId (ui (mounted alice_store)))"
    by (simp add: mounted_def initial_state_def)
  have c: "session_call env1 = Runs (''s9'', 10)"
    by (simp add: env1_def)
  have d: "''s9'' \<notin> s_id ` set (chat_sessions (store (mounted alice_store)))"
    by (simp add: mounted_def alice_store_def)
  have s: "chat_sessions (store (mounted alice_store)) = chat_sessions alice_store"
    by (simp add: mounted_def)
  show ?thesis
    using created_session_title [OF a b c d, of "''Is my data retention policy compliant with Section 8?''" "[]"]
      created_session_title [OF a b c d, of "[]"
        "[\<lparr>uf_id = ''f1'', uf_name = ''policy.pdf'', uf_size = 10, uf_type = ''application/pdf''\<rparr>]"]
    by (simp add: s)
qed

section \<open>Loading a session orders by creation time\<close>

text \<open>
  C7. For a session the caller owns, \<open>loadSession\<close> replaces the transcript by the
  image of a list of rows that is sorted by \<open>created_at\<close> ascending and that holds
  exactly the messages of that session, each as often as the table does; nothing of the
  previous transcript remains.
\<close>

theorem loadSession_created_at_order:
  assumes "\<exists>s \<in> set (chat_sessions (store w)). s_id s = sid \<and> Some (s_user_id s) = auth_uid"
  shows "\<exists>rows. messages (ui (loadSession auth_uid (Runs ()) sid w)) = map loaded_message rows
           \<and> sorted (map m_created_at rows)
           \<and> mset rows = mset (filter (\<lambda>m. m_session_id m = sid) (chat_messages (store w)))"
proof -
  let ?rows = "select_messages auth_uid sid (store w)"
  have "messages (ui (loadSession auth_uid (Runs ()) sid w)) = map loaded_message ?rows"
    by (simp add: loadSession_def)
  moreover have "sorted (map m_created_at ?rows)"
    by (simp add: select_messages_def)
  moreover have "mset ?rows = mset (filter (\<lambda>m. m_session_id m = sid) (chat_messages (store w)))"
    using select_owned [OF assms] by (simp add: select_messages_def)
  ultimately show ?thesis by blast
qed

theorem loadSession_created_at_order_witness:
  "\<exists>rows. messages (ui (loadSession (Some ''alice'') (Runs ()) ''s1'' (mounted alice_store)))
             = map loaded_message rows
         \<and> sorted (map m_created_at rows)
         \<and> mset rows = mset (filter (\<lambda>m. m_session_id m = ''s1'')
                                (chat_messages (store (mounted alice_store))))"
proof -
  have "\<exists>s \<in> set (chat_sessions (store (mounted alice_store))).
          s_id s = ''s1'' \<and> Some (s_user_id s) = Some ''alice''"
    by (simp add: mounted_def alice_store_def)
  from loadSession_created_at_order [OF this] show ?thesis .
qed

section \<open>A delete by a non-owner\<close>

text \<open>
  C8. A delete of a session by an identity that does not own it (or by nobody) deletes
  zero rows and leaves the database as it is, sessions and messages; the handler of the
  sidebar returns without an exception and with the same store; and a listing of the
  sessions, or of the session's messages, by any identity gives what it gave before.
\<close>

theorem delete_by_non_owner:
  assumes "\<forall>s \<in> set (chat_sessions (store w)). s_id s = sid \<longrightarrow> Some (s_user_id s) \<noteq> caller"
  shows "delete_session caller sid (store w) = (0, store w)
       \<and> (\<exists>sb' w'. handleDeleteSession caller (Runs ()) sid (sb, w) = Inr (sb', w')
                    \<and> store w' = store w)
       \<and> select_sessions owner (snd (delete_session caller sid (store w)))
           = select_sessions owner (store w)
       \<and> select_messages owner sid (snd (delete_session caller sid (store w)))
           = select_messages owner sid (store w)"
proof -
  have d: "delete_session caller sid (store w) = (0, store w)"
    by (rule delete_non_owner [OF assms])
  have "\<exists>sb' w'. handleDeleteSession caller (Runs ()) sid (sb, w) = Inr (sb', w')
                    \<and> store w' = store w"
    by (simp add: handleDeleteSession_def Let_def d handleSelectSession_def handleNewChat_def)
  with d show ?thesis by simp
qed

theorem delete_by_non_owner_witness:
  "delete_session (Some ''bob'') ''s1'' alice_store = (0, alice_store)
   \<and> select_sessions (Some ''alice'') (snd (delete_session (Some ''bob'') ''s1'' alice_store))
       = chat_sessions alice_store"
proof -
  have "\<forall>s \<in> set (chat_sessions (store (mounted alice_store))).
          s_id s = ''s1'' \<longrightarrow> Some (s_user_id s) \<noteq> Some ''bob''"
    by (simp add: mounted_def alice_store_def)
  from delete_by_non_owner [OF this, of "\<lparr>sessions = [], sb_isLoading = False\<rparr>" "Some ''alice''"]
  have "delete_session (Some ''bob'') ''s1'' alice_store = (0, alice_store)"
    and "select_sessions (Some ''alice'') (snd (delete_session (Some ''bob'') ''s1'' alice_store))
           = select_sessions (Some ''alice'') alice_store"
    by (simp_all add: mounted_def)
  moreover have "select_sessions (Some ''alice'') alice_store = chat_sessions alice_store"
    by (simp add: select_sessions_def sessions_policy_def alice_store_def)
  ultimately show ?thesis by simp
qed

section \<open>The relay ignores the model field\<close>

text \<open>
  C9. Two requests to the chat relay that differ only in the \<open>model\<close> field of the body
  give the same upstream request and the same response; the hosted completion API is
  always called with the model \<open>gpt-3.5-turbo\<close> and with the fixed system instruction
  first, whichever of \<open>chatgpt\<close> and \<open>gemini\<close> the UI selected.
\<close>

theorem relay_ignores_model:
  assumes "rq_message r1 = rq_message r2" and "rq_history r1 = rq_history r2"
  shows "completion_of r1 = completion_of r2
       \<and> chat_handler openai r1 = chat_handler openai r2
       \<and> cr_model (completion_of r1) = ''gpt-3.5-turbo''
       \<and> hd (cr_messages (completion_of r1))
           = \<lparr>t_role = ''system'', t_content = system_instruction\<rparr>"
  using assms by (simp add: completion_of_def chat_handler_def)

theorem relay_ignores_model_witness:
  "completion_of \<lparr>rq_message = ''hi'', rq_model = model_name gemini, rq_history = []\<rparr>
     = completion_of \<lparr>rq_message = ''hi'', rq_model = model_name chatgpt, rq_history = []\<rparr>
   \<and> cr_model (completion_of
         \<lparr>rq_message = ''hi'', rq_model = model_name gemini, rq_history = []\<rparr>)
       = ''gpt-3.5-turbo''"
proof -
  let ?g = "\<lparr>rq_message = ''hi'', rq_model = model_name gemini, rq_history = []\<rparr>"
  let ?c = "\<lparr>rq_message = ''hi'', rq_model = model_name chatgpt, rq_history = []\<rparr>"
  have "rq_message ?g = rq_message ?c" and "rq_history ?g = rq_history ?c"
    by simp_all
  from relay_ignores_model [OF this, of "\<lambda>_. Answers ''ok''"] show ?thesis
    by blast
qed

section \<open>An empty submit\<close>

text \<open>
  C10. For a submit with empty text, the user turn appended to the transcript has the
  content \<open>Hello\<close>, and the one request posted to the relay has the empty string as
  its \<open>message\<close>. When a session is there for the submit (one owned by the user is
  current, or the user is signed in, none is current and the session insert runs with
  a new non-empty id) and the insert of the user message runs with a new id, the row
  stored for the user turn has the content \<open>Hello\<close> as well.
\<close>

theorem empty_submit_says_hello:
  "messages (ui (handleSubmit user env [] files w)) ! length (messages (ui w))
     = \<lparr>msg_id = user_uuid env, msg_role = User, msg_content = ''Hello'',
        msg_files = Some (map uf_name files)\<rparr>
   \<and> posted (handleSubmit user env [] files w)
       = posted w @
           [\<lparr>rq_message = [], rq_model = model_name (selectedModel (ui w)),
             rq_history = map (\<lambda>msg. \<lparr>t_role = role_name (msg_role msg),
                                        t_content = msg_content msg\<rparr>) (messages (ui w))\<rparr>]
   \<and> (currentSessionId (ui w) = Some sid \<and> sid \<noteq> []
        \<and> (\<exists>s \<in> set (chat_sessions (store w)). s_id s = sid \<and> Some (s_user_id s) = user)
        \<and> user_save env = Runs (g, t) \<and> g \<notin> m_id ` set (chat_messages (store w))
      \<longrightarrow> \<lparr>m_id = g, m_session_id = sid, m_role = User, m_content = ''Hello'',
            m_files = Some (map uf_name files), m_created_at = t\<rparr>
           \<in> set (chat_messages (store (handleSubmit user env [] files w))))
   \<and> (user = Some uid \<and> currentSessionId (ui w) = None
        \<and> session_call env = Runs (sid', t') \<and> sid' \<noteq> []
        \<and> sid' \<notin> s_id ` set (chat_sessions (store w))
        \<and> user_save env = Runs (g, t) \<and> g \<notin> m_id ` set (chat_messages (store w))
      \<longrightarrow> \<lparr>m_id = g, m_session_id = sid', m_role = User, m_content = ''Hello'',
            m_files = Some (map uf_name files), m_created_at = t\<rparr>
           \<in> set (chat_messages (store (handleSubmit user env [] files w))))"
proof -
  let ?um = "user_message env [] files"
  let ?w2 = "(append_message ?um w)\<lparr>ui := (ui (append_message ?um w))\<lparr>isLoading := True\<rparr>\<rparr>"
  let ?r = "create_session user env [] (currentSessionId (ui w)) ?w2"
  let ?w4 = "save_user_message user env ?um (fst ?r) (snd ?r)"
  have hs: "handleSubmit user env [] files w = call_gateway user env [] (messages (ui w)) (fst ?r) ?w4"
    by (simp add: handleSubmit_unfold Let_def)
  have m4: "messages (ui ?w4) = messages (ui w) @ [?um]"
    by (rule before_gateway_messages)
  have "take (length (messages (ui ?w4))) (messages (ui (handleSubmit user env [] files w))) = messages (ui ?w4)"
    unfolding hs by (rule call_gateway_prefix)
  then have "take (Suc (length (messages (ui w)))) (messages (ui (handleSubmit user env [] files w)))
               = messages (ui w) @ [?um]"
    by (simp add: m4)
  then have "messages (ui (handleSubmit user env [] files w)) ! length (messages (ui w))
               = (messages (ui w) @ [?um]) ! length (messages (ui w))"
    by (metis lessI nth_take)
  then have 1: "messages (ui (handleSubmit user env [] files w)) ! length (messages (ui w))
     = \<lparr>msg_id = user_uuid env, msg_role = User, msg_content = ''Hello'',
        msg_files = Some (map uf_name files)\<rparr>"
    by (simp add: user_message_def)
  have 2: "posted (handleSubmit user env [] files w)
       = posted w @
           [\<lparr>rq_message = [], rq_model = model_name (selectedModel (ui w)),
             rq_history = map (\<lambda>msg. \<lparr>t_role = role_name (msg_role msg),
                                        t_content = msg_content msg\<rparr>) (messages (ui w))\<rparr>]"
    unfolding hs call_gateway_posted
    by (simp add: save_user_message_keeps create_session_keeps append_message_def)
  have 3: "\<lparr>m_id = g, m_session_id = sid, m_role = User, m_content = ''Hello'',
            m_files = Some (map uf_name files), m_created_at = t\<rparr>
           \<in> set (chat_messages (store (handleSubmit user env [] files w)))"
    if cur: "currentSessionId (ui w) = Some sid" and sid: "sid \<noteq> []"
      and own: "\<exists>s \<in> set (chat_sessions (store w)). s_id s = sid \<and> Some (s_user_id s) = user"
      and us: "user_save env = Runs (g, t)" and fresh: "g \<notin> m_id ` set (chat_messages (store w))"
  proof -
    have st: "store ?w2 = store w"
      by (simp add: append_message_def)
    have r: "?r = (Some sid, ?w2)"
      using sid by (simp add: cur create_session_idle)
    have sv: "save_message user (Runs (g, t)) sid User (msg_content ?um) (msg_files ?um) (store w)
            = Some ((store w)\<lparr>chat_messages := chat_messages (store w) @
                 [\<lparr>m_id = g, m_session_id = sid, m_role = User, m_content = msg_content ?um,
                   m_files = msg_files ?um, m_created_at = t\<rparr>]\<rparr>)"
      by (rule save_message_stored [OF own fresh])
    have "\<lparr>m_id = g, m_session_id = sid, m_role = User, m_content = ''Hello'',
            m_files = Some (map uf_name files), m_created_at = t\<rparr>
           \<in> set (chat_messages (store ?w4))"
      unfolding r using sid sv
      by (simp add: save_user_message_def us append_message_def user_message_def)
    then show ?thesis
      unfolding hs using call_gateway_store_grows by blast
  qed
  have 4: "\<lparr>m_id = g, m_session_id = sid', m_role = User, m_content = ''Hello'',
            m_files = Some (map uf_name files), m_created_at = t\<rparr>
           \<in> set (chat_messages (store (handleSubmit user env [] files w)))"
    if user: "user = Some uid" and cur: "currentSessionId (ui w) = None"
      and sc: "session_call env = Runs (sid', t')" and sid: "sid' \<noteq> []"
      and new: "sid' \<notin> s_id ` set (chat_sessions (store w))"
      and us: "user_save env = Runs (g, t)" and fresh: "g \<notin> m_id ` set (chat_messages (store w))"
  proof -
    let ?row = "\<lparr>s_id = sid', s_user_id = uid, s_title = session_title [],
                  s_created_at = t', s_updated_at = t'\<rparr>"
    let ?w3 = "?w2\<lparr>store := (store ?w2)\<lparr>chat_sessions := chat_sessions (store ?w2) @ [?row]\<rparr>,
                  ui := (ui ?w2)\<lparr>currentSessionId := Some sid'\<rparr>\<rparr>"
    have st: "store ?w2 = store w"
      by (simp add: append_message_def)
    have new2: "sid' \<notin> s_id ` set (chat_sessions (store ?w2))"
      unfolding st by (rule new)
    have nt: "\<not> truthy (currentSessionId (ui w))"
      by (simp add: cur)
    have r: "?r = (Some sid', ?w3)"
      by (rule create_session_new [OF user nt sc new2])
    have st3: "store ?w3 = (store w)\<lparr>chat_sessions := chat_sessions (store w) @ [?row]\<rparr>"
      by (simp add: append_message_def)
    have own3: "\<exists>s \<in> set (chat_sessions (store ?w3)). s_id s = sid' \<and> Some (s_user_id s) = user"
      unfolding st3 using user by simp
    have fresh3: "g \<notin> m_id ` set (chat_messages (store ?w3))"
      unfolding st3 using fresh by simp
    have sv: "save_message user (Runs (g, t)) sid' User (msg_content ?um) (msg_files ?um) (store ?w3)
            = Some ((store ?w3)\<lparr>chat_messages := chat_messages (store ?w3) @
                 [\<lparr>m_id = g, m_session_id = sid', m_role = User, m_content = msg_content ?um,
                   m_files = msg_files ?um, m_created_at = t\<rparr>]\<rparr>)"
      by (rule save_message_stored [OF own3 fresh3])
    have "save_user_message user env ?um (Some sid') ?w3
            = ?w3\<lparr>store := (store ?w3)\<lparr>chat_messages := chat_messages (store ?w3) @
                 [\<lparr>m_id = g, m_session_id = sid', m_role = User, m_content = msg_content ?um,
                   m_files = msg_files ?um, m_created_at = t\<rparr>]\<rparr>\<rparr>"
      using sv unfolding us [symmetric] by (rule save_user_message_stored [OF sid])
    then have "\<lparr>m_id = g, m_session_id = sid', m_role = User, m_content = ''Hello'',
            m_files = Some (map uf_name files), m_created_at = t\<rparr>
           \<in> set (chat_messages (store ?w4))"
      unfolding r fst_conv snd_conv by (simp add: user_message_def)
    then show ?thesis
      unfolding hs using call_gateway_store_grows by blast
  qed
  show ?thesis
  proof (intro conjI impI)
    show "messages (ui (handleSubmit user env [] files w)) ! length (messages (ui w))
     = \<lparr>msg_id = user_uuid env, msg_role = User, msg_content = ''Hello'',
        msg_files = Some (map uf_name files)\<rparr>"
      by (rule 1)
    show "posted (handleSubmit user env [] files w)
       = posted w @
           [\<lparr>rq_message = [], rq_model = model_name (selectedModel (ui w)),
             rq_history = map (\<lambda>msg. \<lparr>t_role = role_name (msg_role msg),
                                        t_content = msg_content msg\<rparr>) (messages (ui w))\<rparr>]"
      by (rule 2)
  next
    assume "currentSessionId (ui w) = Some sid \<and> sid \<noteq> []
        \<and> (\<exists>s \<in> set (chat_sessions (store w)). s_id s = sid \<and> Some (s_user_id s) = user)
        \<and> user_save env = Runs (g, t) \<and> g \<notin> m_id ` set (chat_messages (store w))"
    then show "\<lparr>m_id = g, m_session_id = sid, m_role = User, m_content = ''Hello'',
            m_files = Some (map uf_name files), m_created_at = t\<rparr>
           \<in> set (chat_messages (store (handleSubmit user env [] files w)))"
      by (elim conjE) (rule 3; assumption)
  next
    assume "user = Some uid \<and> currentSessionId (ui w) = None
        \<and> session_call env = Runs (sid', t') \<and> sid' \<noteq> []
        \<and> sid' \<notin> s_id ` set (chat_sessions (store w))
        \<and> user_save env = Runs (g, t) \<and> g \<notin> m_id ` set (chat_messages (store w))"
    then show "\<lparr>m_id = g, m_session_id = sid', m_role = User, m_content = ''Hello'',
            m_files = Some (map uf_name files), m_created_at = t\<rparr>
           \<in> set (chat_messages (store (handleSubmit user env [] files w)))"
      by (elim conjE) (rule 4; assumption)
  qed
qed

theorem empty_submit_says_hello_witness:
  "msg_content (messages (ui (handleSubmit (Some ''alice'') env2 []
        [\<lparr>uf_id = ''f1'', uf_name = ''policy.pdf'', uf_size = 10, uf_type = ''application/pdf''\<rparr>]
        (loadSession (Some ''alice'') (Runs ()) ''s1'' (mounted alice_store)))) ! 2) = ''Hello''
   \<and> map rq_message (posted (handleSubmit (Some ''alice'') env2 []
        [\<lparr>uf_id = ''f1'', uf_name = ''policy.pdf'', uf_size = 10, uf_type = ''application/pdf''\<rparr>]
        (loadSession (Some ''alice'') (Runs ()) ''s1'' (mounted alice_store)))) = [[]]
   \<and> \<lparr>m_id = ''m20'', m_session_id = ''s1'', m_role = User, m_content = ''Hello'',
       m_files = Some [''policy.pdf''], m_created_at = 21\<rparr>
      \<in> set (chat_messages (store (handleSubmit (Some ''alice'') env2 []
        [\<lparr>uf_id = ''f1'', uf_name = ''policy.pdf'', uf_size = 10, uf_type = ''application/pdf''\<rparr>]
        (loadSession (Some ''alice'') (Runs ()) ''s1'' (mounted alice_store)))))"
proof -
  let ?w = "loadSession (Some ''alice'') (Runs ()) ''s1'' (mounted alice_store)"
  let ?fs = "[\<lparr>uf_id = ''f1'', uf_name = ''policy.pdf'', uf_size = 10, uf_type = ''application/pdf''\<rparr>]"
  have st: "store ?w = alice_store" and cur: "currentSessionId (ui ?w) = Some ''s1''"
    and po: "posted ?w = []"
    by (simp_all add: loadSession_def mounted_def)
  have len: "length (messages (ui ?w)) = 2"
    by (simp add: loadSession_def select_messages_def messages_policy_def mounted_def alice_store_def)
  have own: "\<exists>s \<in> set (chat_sessions (store ?w)). s_id s = ''s1'' \<and> Some (s_user_id s) = Some ''alice''"
    unfolding st by (simp add: alice_store_def)
  have us: "user_save env2 = Runs (''m20'', 21)"
    by (simp add: env2_def)
  have fr: "''m20'' \<notin> m_id ` set (chat_messages (store ?w))"
    unfolding st by (simp add: alice_store_def)
  show ?thesis
    using empty_submit_says_hello [of "Some ''alice''" env2 ?fs ?w "''s1''" "''m20''" 21]
      cur own us fr
    by (simp add: len po)
qed

end
